theory Spec2Isabelle
  imports Complex_Main
begin

section \<open>JavaScript values used by FfmpegStreamingProcess.ts\<close>

text \<open>
  A JavaScript string is a sequence of UTF-16 code units. The model keeps the code
  units as natural numbers, so that the white space of \<open>trim\<close>, \<open>parseInt\<close> and
  \<open>parseFloat\<close> (which reaches beyond the 8-bit range) is the language's own.
  \<open>js\<close> turns an ASCII literal into such a string.
\<close>

type_synonym code_unit = nat
type_synonym jsstring = "code_unit list"

definition js :: "string \<Rightarrow> jsstring" where
  "js s = map of_char s"

text \<open>A value that is a string or \<open>undefined\<close> (\<open>None\<close>).\<close>

type_synonym jsval = "jsstring option"

text \<open>
  A JavaScript number. \<open>Num r\<close> stands for the double nearest to the rational \<open>r\<close>
  (the parsers below compute the exact decimal value, the language then rounds it);
  the two infinities, the negative zero and NaN are kept apart.
\<close>

datatype number = NaN | PosInfinity | NegInfinity | NegZero | Num rat

text \<open>The only exception \<open>parseProgress\<close> can meet: a method call on \<open>undefined\<close>.\<close>

datatype error = TypeError

subsection \<open>String built-ins\<close>

text \<open>WhiteSpace and LineTerminator code points of ECMAScript.\<close>

definition isWhiteSpace :: "code_unit \<Rightarrow> bool" where
  "isWhiteSpace c =
     (c \<in> set [9, 10, 11, 12, 13, 32, 160, 5760, 8232, 8233, 8239, 8287, 12288, 65279]
      \<or> (8192 \<le> c \<and> c \<le> 8202))"

definition trimStart :: "jsstring \<Rightarrow> jsstring" where
  "trimStart s = dropWhile isWhiteSpace s"

definition trimEnd :: "jsstring \<Rightarrow> jsstring" where
  "trimEnd s = rev (dropWhile isWhiteSpace (rev s))"

definition trim :: "jsstring \<Rightarrow> jsstring" where
  "trim s = trimEnd (trimStart s)"

text \<open>\<open>x!.trim()\<close>: the non-null assertion is erased at run time, so the call on
  \<open>undefined\<close> throws a TypeError.\<close>

definition trim_of :: "jsval \<Rightarrow> error + jsstring" where
  "trim_of v = (case v of None \<Rightarrow> Inl TypeError | Some s \<Rightarrow> Inr (trim s))"

text \<open>\<open>s.indexOf(pat)\<close>: the first position where \<open>pat\<close> occurs, or \<open>-1\<close>.\<close>

fun indexOf :: "jsstring \<Rightarrow> jsstring \<Rightarrow> int" where
  "indexOf [] pat = (if pat = [] then 0 else - 1)"
| "indexOf (c # cs) pat =
     (if take (length pat) (c # cs) = pat then 0
      else (let r = indexOf cs pat in if r < 0 then - 1 else r + 1))"

text \<open>\<open>input.split(/\r?\n/)\<close>: a line feed ends a line, and a carriage return right
  before it belongs to the separator. The result always has at least one element.\<close>

fun split_lines :: "jsstring \<Rightarrow> jsstring list" where
  "split_lines [] = [[]]"
| "split_lines (c # cs) =
     (let r = split_lines cs in
      if c = 10 then [] # r
      else if c = 13 \<and> (case cs of d # _ \<Rightarrow> d = 10 | [] \<Rightarrow> False) then r
      else (case r of l # ls \<Rightarrow> (c # l) # ls | [] \<Rightarrow> [[c]]))"

text \<open>\<open>s.split(sep)\<close> for a separator of one code unit: every occurrence splits.\<close>

fun split_on :: "code_unit \<Rightarrow> jsstring \<Rightarrow> jsstring list" where
  "split_on sep [] = [[]]"
| "split_on sep (c # cs) =
     (if c = sep then [] # split_on sep cs
      else (case split_on sep cs of l # ls \<Rightarrow> (c # l) # ls | [] \<Rightarrow> [[c]]))"

text \<open>\<open>s.split(sep, limit)\<close>: the array of all pieces, cut to its first \<open>limit\<close>
  elements.\<close>

definition split_limit :: "code_unit \<Rightarrow> nat \<Rightarrow> jsstring \<Rightarrow> jsstring list" where
  "split_limit sep limit s = take limit (split_on sep s)"

text \<open>\<open>a[i]\<close> on an array: \<open>undefined\<close> out of range.\<close>

definition at_index :: "jsstring list \<Rightarrow> nat \<Rightarrow> jsval" where
  "at_index a i = (if i < length a then Some (a ! i) else None)"

text \<open>\<open>String(v)\<close>, the conversion \<open>parseInt\<close> and \<open>parseFloat\<close> start with.\<close>

definition ToString :: "jsval \<Rightarrow> jsstring" where
  "ToString v = (case v of None \<Rightarrow> js ''undefined'' | Some s \<Rightarrow> s)"

subsection \<open>parseInt and parseFloat\<close>

definition isDigit :: "code_unit \<Rightarrow> bool" where
  "isDigit c = (48 \<le> c \<and> c \<le> 57)"

text \<open>The value of a digit in radix 10 or 16; \<open>None\<close> for any other code unit.\<close>

definition digit_value :: "nat \<Rightarrow> code_unit \<Rightarrow> nat option" where
  "digit_value R c =
     (if 48 \<le> c \<and> c \<le> 57 then Some (c - 48)
      else if R = 16 \<and> 97 \<le> c \<and> c \<le> 102 then Some (c - 87)
      else if R = 16 \<and> 65 \<le> c \<and> c \<le> 70 then Some (c - 55)
      else None)"

definition radix_value :: "nat \<Rightarrow> jsstring \<Rightarrow> nat" where
  "radix_value R Z =
     foldl (\<lambda>a c. a * R + (case digit_value R c of Some d \<Rightarrow> d | None \<Rightarrow> 0)) 0 Z"

text \<open>A signed magnitude as a number: a zero keeps its sign.\<close>

definition signed_number :: "bool \<Rightarrow> rat \<Rightarrow> number" where
  "signed_number neg r = (if r = 0 then (if neg then NegZero else Num 0)
                          else Num (if neg then - r else r))"

text \<open>\<open>parseInt(v)\<close> with no radix: leading white space and one sign are skipped, a
  \<open>0x\<close> or \<open>0X\<close> prefix selects radix 16, and the longest run of digits is read;
  no digit gives NaN.\<close>

definition parseInt :: "jsval \<Rightarrow> number" where
  "parseInt v =
     (let S = trimStart (ToString v);
          neg = (case S of c # _ \<Rightarrow> c = 45 | [] \<Rightarrow> False);
          S1 = (case S of c # cs \<Rightarrow> if c = 43 \<or> c = 45 then cs else S | [] \<Rightarrow> S);
          hex = (take 2 S1 = js ''0x'' \<or> take 2 S1 = js ''0X'');
          S2 = (if hex then drop 2 S1 else S1);
          R = (if hex then 16 else 10);
          Z = takeWhile (\<lambda>c. digit_value R c \<noteq> None) S2
      in if Z = [] then NaN else signed_number neg (of_nat (radix_value R Z)))"

text \<open>The value of \<open>m \<times> 10\<^sup>e\<close>.\<close>

definition scale10 :: "nat \<Rightarrow> int \<Rightarrow> rat" where
  "scale10 m e = (if 0 \<le> e then of_nat m * 10 ^ nat e else of_nat m / 10 ^ nat (- e))"

text \<open>The exponent part of a decimal literal, when one follows: \<open>e\<close> or \<open>E\<close>, an
  optional sign and at least one digit. Otherwise the literal ends before it.\<close>

definition exponent_part :: "jsstring \<Rightarrow> int" where
  "exponent_part s =
     (case s of
        [] \<Rightarrow> 0
      | c # cs \<Rightarrow>
          if c = 101 \<or> c = 69 then
            (let eneg = (case cs of d # _ \<Rightarrow> d = 45 | [] \<Rightarrow> False);
                 ds = (case cs of d # r \<Rightarrow> if d = 43 \<or> d = 45 then r else cs | [] \<Rightarrow> cs);
                 E = takeWhile isDigit ds
             in if E = [] then 0
                else if eneg then - int (radix_value 10 E) else int (radix_value 10 E))
          else 0)"

text \<open>\<open>parseFloat(v)\<close>: leading white space is skipped and the longest prefix that
  is a decimal literal (\<open>Infinity\<close>, or digits with an optional fraction and exponent,
  after an optional sign) is read; no such prefix gives NaN.\<close>

definition parseFloat :: "jsval \<Rightarrow> number" where
  "parseFloat v =
     (let S = trimStart (ToString v);
          neg = (case S of c # _ \<Rightarrow> c = 45 | [] \<Rightarrow> False);
          S1 = (case S of c # cs \<Rightarrow> if c = 43 \<or> c = 45 then cs else S | [] \<Rightarrow> S)
      in if take 8 S1 = js ''Infinity'' then (if neg then NegInfinity else PosInfinity)
         else
           (let I = takeWhile isDigit S1;
                S2 = dropWhile isDigit S1;
                dot = (case S2 of c # _ \<Rightarrow> c = 46 | [] \<Rightarrow> False);
                F = (if dot then takeWhile isDigit (tl S2) else []);
                S3 = (if dot \<and> (I \<noteq> [] \<or> F \<noteq> []) then dropWhile isDigit (tl S2) else S2)
            in if I = [] \<and> F = [] then NaN
               else signed_number neg
                      (scale10 (radix_value 10 (I @ F)) (exponent_part S3 - int (length F)))))"

section \<open>parseProgress\<close>

record FfmpegProgress =
  frame :: number
  fps :: number
  stream_q :: number
  bitrate :: number
  total_size :: number
  out_time_us :: number
  out_time :: jsstring
  dup_frames :: number
  drop_frames :: number
  speed :: number
  progress :: jsstring

text \<open>The \<open>Map\<close> from string to string of the source. At run time both the key and the value
  are whatever \<open>split[0]\<close> and \<open>split[1]\<close> are, so they may be \<open>undefined\<close>.\<close>

type_synonym progress_map = "jsval \<rightharpoonup> jsval"

text \<open>\<open>progress.get(k)\<close>: \<open>undefined\<close> for an absent key, else the stored value.\<close>

definition map_get :: "progress_map \<Rightarrow> jsstring \<Rightarrow> jsval" where
  "map_get m k = (case m (Some k) of None \<Rightarrow> None | Some v \<Rightarrow> v)"

text \<open>The body of the \<open>forEach\<close>: \<open>split = line.split('=', 2)\<close>, then
  \<open>progress.set(split[0], split[1])\<close>.\<close>

definition set_line :: "progress_map \<Rightarrow> jsstring \<Rightarrow> progress_map" where
  "set_line m line =
     (let split = split_limit 61 2 line
      in m(at_index split 0 \<mapsto> at_index split 1))"

fun set_lines :: "progress_map \<Rightarrow> jsstring list \<Rightarrow> progress_map" where
  "set_lines m [] = m"
| "set_lines m (line # lines) = set_lines (set_line m line) lines"

definition progress_of :: "jsstring \<Rightarrow> progress_map" where
  "progress_of input = set_lines Map.empty (split_lines input)"

text \<open>The object literal of the \<open>return\<close>. Its fields are evaluated in order; only the
  two \<open>trim\<close> calls can throw, and the number parsers have no effect, so the first
  TypeError is that of \<open>out_time\<close> and the second that of \<open>progress\<close>.\<close>

definition build_report :: "progress_map \<Rightarrow> error + FfmpegProgress" where
  "build_report m =
     (case trim_of (map_get m (js ''out_time'')) of
        Inl e \<Rightarrow> Inl e
      | Inr ot \<Rightarrow>
          (case trim_of (map_get m (js ''progress'')) of
             Inl e \<Rightarrow> Inl e
           | Inr pr \<Rightarrow>
               Inr \<lparr> frame = parseInt (map_get m (js ''frame'')),
                     fps = parseFloat (map_get m (js ''fps'')),
                     stream_q = parseFloat (map_get m (js ''stream_0_0_q'')),
                     bitrate = parseFloat (map_get m (js ''bitrate'')),
                     total_size = parseInt (map_get m (js ''total_size'')),
                     out_time_us = parseInt (map_get m (js ''out_time_us'')),
                     out_time = ot,
                     dup_frames = parseInt (map_get m (js ''dup_frames'')),
                     drop_frames = parseInt (map_get m (js ''drop_frames'')),
                     speed = parseFloat (map_get m (js ''speed'')),
                     progress = pr \<rparr>))"

text \<open>\<open>parseProgress\<close>, on \<open>input = data.toString()\<close>. \<open>None\<close> is the \<open>undefined\<close>
  of both the \<open>catch\<close> and the \<open>else\<close> branch.\<close>

definition parseProgress :: "jsstring \<Rightarrow> FfmpegProgress option" where
  "parseProgress input =
     (if indexOf input (js ''frame='') = 0 then
        (case build_report (progress_of input) of
           Inl e \<Rightarrow> None
         | Inr r \<Rightarrow> Some r)
      else None)"

section \<open>The supervisor\<close>

subsection \<open>Text of the log messages\<close>

text \<open>\<open>a.join(sep)\<close>.\<close>

fun join :: "jsstring \<Rightarrow> jsstring list \<Rightarrow> jsstring" where
  "join sep [] = []"
| "join sep [x] = x"
| "join sep (x # y # r) = x @ sep @ join sep (y # r)"

text \<open>The decimal digits of a natural number, and \<open>String(i)\<close> for an integer
  (valid below \<open>10\<^sup>2\<^sup>1\<close>, where the language switches to exponents; exit codes
  are far below).\<close>

fun show_nat :: "nat \<Rightarrow> jsstring" where
  "show_nat n = (if n < 10 then [48 + n] else show_nat (n div 10) @ [48 + n mod 10])"

definition show_int :: "int \<Rightarrow> jsstring" where
  "show_int i = (if i < 0 then 45 # show_nat (nat (- i)) else show_nat (nat i))"

text \<open>\<open>'' + code\<close> and \<open>'' + signal\<close>, where either may be \<open>null\<close>.\<close>

definition show_code :: "int option \<Rightarrow> jsstring" where
  "show_code code = (case code of None \<Rightarrow> js ''null'' | Some c \<Rightarrow> show_int c)"

definition show_signal :: "jsstring option \<Rightarrow> jsstring" where
  "show_signal signal = (case signal of None \<Rightarrow> js ''null'' | Some g \<Rightarrow> g)"

text \<open>\<open>String(ms / 1000)\<close> for a whole number of milliseconds: the integer part and,
  when there is one, the fraction of up to three digits without trailing zeros. This
  is the shortest decimal that reads back as the same double as long as it has at most
  15 significant digits, that is for \<open>|ms| < 10\<^sup>1\<^sup>5\<close>.\<close>

definition show_seconds :: "int \<Rightarrow> jsstring" where
  "show_seconds ms =
     (let a = nat \<bar>ms\<bar>;
          f = a mod 1000;
          ds = [48 + f div 100, 48 + (f div 10) mod 10, 48 + f mod 10];
          frac = (if f = 0 then [] else 46 # rev (dropWhile (\<lambda>c. c = 48) (rev ds)))
      in (if ms < 0 then [45] else []) @ show_nat (a div 1000) @ frac)"

subsection \<open>State, events and effects\<close>

text \<open>The arguments of the constructor that stay fixed, and \<open>os.EOL\<close>.\<close>

record config =
  cameraName :: jsstring
  sessionId :: jsstring
  videoProcessor :: jsstring
  ffmpegArgs :: "jsstring list"
  debug :: bool
  EOL :: jsstring

text \<open>
  What the handlers read and write: the closure variables \<open>started\<close>, \<open>startTime\<close>
  and \<open>callback\<close> (only whether it still holds the function matters), the field
  \<open>killTimeout\<close> (the handle of the last timer; never reset), \<open>process.killed\<close>, and
  the timers of the event loop that are armed, each with its handle and its delay in
  milliseconds.
\<close>

record supervisor =
  started :: bool
  startTime :: int
  callback :: bool
  killTimeout :: "nat option"
  killed :: bool
  timers :: "(nat \<times> nat) list"
  next_handle :: nat

text \<open>
  The calls the supervisor makes on its collaborators, in order: the three logger
  methods with their arguments (\<open>log.debug\<close> takes a third flag), the ready callback
  with no argument or with an \<open>Error\<close> of the given message, the two methods of the
  delegate with the session identifier, a write on the child's standard input, and
  \<open>process.kill(signal)\<close> with what it returned.
\<close>

datatype effect =
    LogDebug jsstring jsstring bool
  | LogWarn jsstring jsstring
  | LogError jsstring jsstring
  | Callback "jsstring option"
  | StopStream jsstring
  | ForceStopStream jsstring
  | StdinWrite jsstring
  | Kill jsstring bool

text \<open>
  What can happen to a supervisor: a chunk on standard output (with the reading of
  \<open>Date.now()\<close> at that moment), a line on standard error, the \<open>error\<close> event with
  its message, the \<open>exit\<close> event with code and signal (either may be \<open>null\<close>), a
  call of \<open>stop()\<close>, and a timer of the event loop firing. \<open>ChildProcess.kill\<close>
  returns true and sets \<open>killed\<close> when the signal was delivered; whether it was is
  the operating system's answer and comes with the event.
\<close>

datatype event =
    StdoutData int jsstring
  | StderrLine jsstring
  | ProcessError jsstring
  | ProcessExit "int option" "jsstring option"
  | Stop
  | TimerFires nat bool

subsection \<open>The constructor and the handlers\<close>

definition construct :: "config \<Rightarrow> bool \<Rightarrow> int \<Rightarrow> supervisor \<times> effect list" where
  "construct cfg cb now =
     (\<lparr> started = False, startTime = now, callback = cb, killTimeout = None,
        killed = False, timers = [], next_handle = 0 \<rparr>,
      [LogDebug (js ''Stream command: '' @ videoProcessor cfg @ js '' ''
                   @ join (js '' '') (ffmpegArgs cfg))
                (cameraName cfg) (debug cfg)])"

text \<open>\<open>x > 0\<close> on a number. \<open>frame\<close> comes from \<open>parseInt\<close>, so a \<open>Num\<close> here is
  an integer and rounding to a double keeps its sign.\<close>

fun gt_zero :: "number \<Rightarrow> bool" where
  "gt_zero NaN = False"
| "gt_zero PosInfinity = True"
| "gt_zero NegInfinity = False"
| "gt_zero NegZero = False"
| "gt_zero (Num r) = (0 < r)"

text \<open>The log of the startup latency, for \<open>ms = Date.now() - startTime\<close>. Both
  clock readings are whole milliseconds, so \<open>runtime\<close> is the double nearest to
  \<open>ms / 1000\<close>, and it compares with 5 and 22 as the exact quotient does.\<close>

definition first_frames_log :: "config \<Rightarrow> int \<Rightarrow> effect" where
  "first_frames_log cfg ms =
     (let runtime = (of_int ms :: rat) / 1000;
          message = js ''Getting the first frames took '' @ show_seconds ms @ js '' seconds.''
      in if runtime < 5 then LogDebug message (cameraName cfg) (debug cfg)
         else if runtime < 22 then LogWarn message (cameraName cfg)
         else LogError message (cameraName cfg))"

definition on_stdout :: "config \<Rightarrow> supervisor \<Rightarrow> int \<Rightarrow> jsstring \<Rightarrow> supervisor \<times> effect list" where
  "on_stdout cfg s now data =
     (case parseProgress data of
        None \<Rightarrow> (s, [])
      | Some p \<Rightarrow>
          if \<not> started s \<and> gt_zero (frame p)
          then (s\<lparr>started := True\<rparr>, [first_frames_log cfg (now - startTime s)])
          else (s, []))"

text \<open>\<open>line.match(/\[(panic|fatal|error)\]/)\<close> as a condition.\<close>

definition severity_tag :: "jsstring \<Rightarrow> bool" where
  "severity_tag line =
     (0 \<le> indexOf line (js ''[panic]'') \<or> 0 \<le> indexOf line (js ''[fatal]'')
      \<or> 0 \<le> indexOf line (js ''[error]''))"

definition on_stderr_line :: "config \<Rightarrow> supervisor \<Rightarrow> jsstring \<Rightarrow> supervisor \<times> effect list" where
  "on_stderr_line cfg s line =
     ((if callback s then s\<lparr>callback := False\<rparr> else s),
      (if callback s then [Callback None] else [])
      @ (if debug cfg \<and> severity_tag line then [LogError line (cameraName cfg)]
         else if debug cfg then [LogDebug line (cameraName cfg) True]
         else []))"

definition on_error :: "config \<Rightarrow> supervisor \<Rightarrow> jsstring \<Rightarrow> supervisor \<times> effect list" where
  "on_error cfg s msg =
     (s,
      [LogError (js ''FFmpeg process creation failed: '' @ msg) (cameraName cfg)]
      @ (if callback s then [Callback (Some (js ''FFmpeg process creation failed''))] else [])
      @ [StopStream (sessionId cfg)])"

text \<open>\<open>clearTimeout(h)\<close> disarms the timer of handle \<open>h\<close>.\<close>

definition clearTimeout :: "nat \<Rightarrow> (nat \<times> nat) list \<Rightarrow> (nat \<times> nat) list" where
  "clearTimeout h ts = filter (\<lambda>t. fst t \<noteq> h) ts"

definition exit_message :: "int option \<Rightarrow> jsstring option \<Rightarrow> jsstring" where
  "exit_message code signal =
     js ''FFmpeg exited with code: '' @ show_code code @ js '' and signal: ''
     @ show_signal signal"

definition on_exit ::
  "config \<Rightarrow> supervisor \<Rightarrow> int option \<Rightarrow> jsstring option \<Rightarrow> supervisor \<times> effect list" where
  "on_exit cfg s code signal =
     (let s' = (case killTimeout s of
                  Some h \<Rightarrow> s\<lparr>timers := clearTimeout h (timers s)\<rparr>
                | None \<Rightarrow> s);
          message = exit_message code signal
      in (s',
          if killTimeout s \<noteq> None \<and> code = Some 0 then
            [LogDebug (message @ js '' (Expected)'') (cameraName cfg) (debug cfg)]
          else if code = None \<or> code = Some 255 then
            (if killed s
             then [LogDebug (message @ js '' (Forced)'') (cameraName cfg) (debug cfg)]
             else [LogError (message @ js '' (Unexpected)'') (cameraName cfg)])
          else
            [LogError (message @ js '' (Error)'') (cameraName cfg),
             StopStream (sessionId cfg)]
            @ (if \<not> started s \<and> callback s then [Callback (Some message)]
               else [ForceStopStream (sessionId cfg)])))"

text \<open>\<open>stop()\<close>: the write, then \<open>setTimeout\<close> with a fresh handle and 2000 ms.\<close>

definition stop :: "config \<Rightarrow> supervisor \<Rightarrow> supervisor \<times> effect list" where
  "stop cfg s =
     (s\<lparr> killTimeout := Some (next_handle s),
         timers := timers s @ [(next_handle s, 2 * 1000)],
         next_handle := Suc (next_handle s) \<rparr>,
      [StdinWrite (js ''q'' @ EOL cfg)])"

text \<open>The function given to \<open>setTimeout\<close>, run when the timer of handle \<open>h\<close> fires;
  a timer that is not armed does not fire.\<close>

definition on_timer :: "supervisor \<Rightarrow> nat \<Rightarrow> bool \<Rightarrow> supervisor \<times> effect list" where
  "on_timer s h delivered =
     (if h \<in> fst ` set (timers s)
      then (s\<lparr> timers := clearTimeout h (timers s), killed := (killed s \<or> delivered) \<rparr>,
            [Kill (js ''SIGKILL'') delivered])
      else (s, []))"

fun step :: "config \<Rightarrow> supervisor \<Rightarrow> event \<Rightarrow> supervisor \<times> effect list" where
  "step cfg s (StdoutData now data) = on_stdout cfg s now data"
| "step cfg s (StderrLine line) = on_stderr_line cfg s line"
| "step cfg s (ProcessError msg) = on_error cfg s msg"
| "step cfg s (ProcessExit code signal) = on_exit cfg s code signal"
| "step cfg s Stop = stop cfg s"
| "step cfg s (TimerFires h delivered) = on_timer s h delivered"

text \<open>The state after a sequence of events, and the calls made along it.\<close>

fun run_state :: "config \<Rightarrow> supervisor \<Rightarrow> event list \<Rightarrow> supervisor" where
  "run_state cfg s [] = s"
| "run_state cfg s (e # es) = run_state cfg (fst (step cfg s e)) es"

fun run_trace :: "config \<Rightarrow> supervisor \<Rightarrow> event list \<Rightarrow> effect list" where
  "run_trace cfg s [] = []"
| "run_trace cfg s (e # es) = snd (step cfg s e) @ run_trace cfg (fst (step cfg s e)) es"

section \<open>Notions used to state the properties\<close>

text \<open>What a line contributes to the map: the key is the text before the first
  \<open>=\<close>; the value is the text between the first \<open>=\<close> and the second one (or the end
  of the line), and \<open>undefined\<close> for a line without \<open>=\<close>.\<close>

definition line_key :: "jsstring \<Rightarrow> jsstring" where
  "line_key line = takeWhile (\<lambda>c. c \<noteq> 61) line"

definition line_value :: "jsstring \<Rightarrow> jsval" where
  "line_value line =
     (if 61 \<in> set line
      then Some (takeWhile (\<lambda>c. c \<noteq> 61) (tl (dropWhile (\<lambda>c. c \<noteq> 61) line)))
      else None)"

text \<open>The last of the lines that has the key \<open>k\<close>.\<close>

definition last_line_with :: "jsstring \<Rightarrow> jsstring list \<Rightarrow> jsstring option" where
  "last_line_with k lines = find (\<lambda>l. line_key l = k) (rev lines)"

text \<open>A chunk that parses to a report with \<open>frame > 0\<close>.\<close>

definition first_frames :: "jsstring \<Rightarrow> bool" where
  "first_frames data = (case parseProgress data of None \<Rightarrow> False | Some p \<Rightarrow> gt_zero (frame p))"

text \<open>The clock reading that came with the first such chunk of a run.\<close>

fun first_frames_at :: "event list \<Rightarrow> int option" where
  "first_frames_at [] = None"
| "first_frames_at (StdoutData now data # es) =
     (if first_frames data then Some now else first_frames_at es)"
| "first_frames_at (e # es) = first_frames_at es"

text \<open>The calls made by the handler of standard output along a run.\<close>

fun stdout_trace :: "config \<Rightarrow> supervisor \<Rightarrow> event list \<Rightarrow> effect list" where
  "stdout_trace cfg s [] = []"
| "stdout_trace cfg s (StdoutData now data # es) =
     snd (on_stdout cfg s now data) @ stdout_trace cfg (fst (on_stdout cfg s now data)) es"
| "stdout_trace cfg s (e # es) = stdout_trace cfg (fst (step cfg s e)) es"

text \<open>The events of the child's streams and its \<open>error\<close> event: everything but
  \<open>stop()\<close>, a timer and the exit.\<close>

fun quiet :: "event \<Rightarrow> bool" where
  "quiet (StdoutData now data) = True"
| "quiet (StderrLine line) = True"
| "quiet (ProcessError msg) = True"
| "quiet e = False"

fun is_callback :: "effect \<Rightarrow> bool" where
  "is_callback (Callback err) = True"
| "is_callback e = False"

text \<open>A session used for the concrete runs below.\<close>

definition example_config :: config where
  "example_config =
     \<lparr> cameraName = js ''Camera'', sessionId = js ''session-1'',
       videoProcessor = js ''ffmpeg'', ffmpegArgs = [js ''-i'', js ''rtsp://camera''],
       debug = True, EOL = [10] \<rparr>"

section \<open>Properties of parseProgress\<close>

declare show_nat.simps [simp del]

lemmas number_parsers =
  parseInt_def parseFloat_def ToString_def trimStart_def isWhiteSpace_def isDigit_def
  digit_value_def radix_value_def signed_number_def scale10_def exponent_part_def

lemmas line_parsers =
  progress_of_def set_line_def split_limit_def at_index_def map_get_def

lemma parse_undefined: "parseInt None = NaN" "parseFloat None = NaN"
  by (simp_all add: number_parsers js_def)

lemma indexOf_zero_iff: "(indexOf s pat = 0) = (take (length pat) s = pat)"
  by (cases s) (auto simp: Let_def)

lemma indexOf_found_iff: "(0 \<le> indexOf s pat) = (\<exists>pre post. s = pre @ pat @ post)"
proof (induction s)
  case Nil
  then show ?case by auto
next
  case (Cons c cs)
  show ?case
  proof (cases "take (length pat) (c # cs) = pat")
    case True
    then have "c # cs = [] @ pat @ drop (length pat) (c # cs)"
      by (metis append_Nil append_take_drop_id)
    then have "\<exists>pre post. c # cs = pre @ pat @ post" by blast
    with True show ?thesis by simp
  next
    case False
    have "(\<exists>pre post. c # cs = pre @ pat @ post) = (\<exists>pre post. cs = pre @ pat @ post)"
    proof
      assume "\<exists>pre post. c # cs = pre @ pat @ post"
      then obtain pre post where e: "c # cs = pre @ pat @ post" by blast
      show "\<exists>pre post. cs = pre @ pat @ post"
      proof (cases pre)
        case Nil
        with e have "take (length pat) (c # cs) = pat" by simp
        with False show ?thesis by simp
      next
        case (Cons d pre')
        with e have "cs = pre' @ pat @ post" by simp
        then show ?thesis by blast
      qed
    next
      assume "\<exists>pre post. cs = pre @ pat @ post"
      then obtain pre post where "cs = pre @ pat @ post" by blast
      then have "c # cs = (c # pre) @ pat @ post" by simp
      then show "\<exists>pre post. c # cs = pre @ pat @ post" by blast
    qed
    moreover have "(0 \<le> indexOf (c # cs) pat) = (0 \<le> indexOf cs pat)"
      using False by (auto simp: Let_def)
    ultimately show ?thesis
      using Cons.IH by (simp only:)
  qed
qed

lemma split_on_nonempty: "split_on sep s \<noteq> []"
  by (induction s) (auto split: list.splits)

lemma hd_split_on: "hd (split_on sep s) = takeWhile (\<lambda>c. c \<noteq> sep) s"
  by (induction s) (auto split: list.splits simp: split_on_nonempty)

lemma tl_split_on:
  "tl (split_on sep s) =
     (if sep \<in> set s then split_on sep (tl (dropWhile (\<lambda>c. c \<noteq> sep) s)) else [])"
  by (induction s) (auto split: list.splits simp: split_on_nonempty)

lemma split_on_unfold:
  "split_on sep s = takeWhile (\<lambda>c. c \<noteq> sep) s
     # (if sep \<in> set s then split_on sep (tl (dropWhile (\<lambda>c. c \<noteq> sep) s)) else [])"
  using split_on_nonempty [of sep s] hd_split_on [of sep s] tl_split_on [of sep s]
  by (cases "split_on sep s") auto

lemma split_limit_two:
  "split_limit 61 2 line =
     (case line_value line of None \<Rightarrow> [line_key line] | Some v \<Rightarrow> [line_key line, v])"
proof -
  have two: "take 2 (x # xs) = x # take (Suc 0) xs" for x :: jsstring and xs
    by (simp add: numeral_2_eq_2)
  have one: "take (Suc 0) xs = [hd xs]" if "xs \<noteq> []" for xs :: "jsstring list"
    using that by (cases xs) auto
  show ?thesis
  proof (cases "61 \<in> set line")
    case False
    then show ?thesis
      unfolding split_limit_def
      by (subst split_on_unfold) (simp add: line_key_def line_value_def)
  next
    case True
    then show ?thesis
      unfolding split_limit_def
      by (subst split_on_unfold)
        (simp add: two one split_on_nonempty hd_split_on line_key_def line_value_def)
  qed
qed

lemma at_index_split:
  "at_index (split_limit 61 2 line) 0 = Some (line_key line)"
  "at_index (split_limit 61 2 line) (Suc 0) = line_value line"
  by (auto simp: split_limit_two at_index_def split: option.splits)

lemma set_line_eq: "set_line m line = m(Some (line_key line) \<mapsto> line_value line)"
  by (simp add: set_line_def at_index_split)

lemma set_lines_append: "set_lines m (ls @ [l]) = set_line (set_lines m ls) l"
  by (induction ls arbitrary: m) auto

lemma set_lines_lookup:
  "set_lines m ls (Some k) =
     (case last_line_with k ls of None \<Rightarrow> m (Some k) | Some l \<Rightarrow> Some (line_value l))"
  by (induction ls rule: rev_induct) (auto simp: set_lines_append set_line_eq last_line_with_def)

lemma map_get_progress_of:
  "map_get (progress_of input) k =
     (case last_line_with k (split_lines input) of None \<Rightarrow> None | Some l \<Rightarrow> line_value l)"
  by (simp add: map_get_def progress_of_def set_lines_lookup split: option.splits)

lemma key_absent_iff:
  "(progress_of input (Some k) = None) = (last_line_with k (split_lines input) = None)"
  by (simp add: progress_of_def set_lines_lookup split: option.splits)

lemma parseProgress_None_iff:
  "indexOf input (js ''frame='') = 0 \<Longrightarrow>
     (parseProgress input = None) =
     (map_get (progress_of input) (js ''out_time'') = None
      \<or> map_get (progress_of input) (js ''progress'') = None)"
  by (auto simp: parseProgress_def build_report_def trim_of_def split: option.splits sum.splits)

lemma parseProgress_Some:
  "indexOf input (js ''frame='') = 0 \<Longrightarrow>
   map_get (progress_of input) (js ''out_time'') = Some ot \<Longrightarrow>
   map_get (progress_of input) (js ''progress'') = Some pr \<Longrightarrow>
   parseProgress input =
     Some \<lparr> frame = parseInt (map_get (progress_of input) (js ''frame'')),
            fps = parseFloat (map_get (progress_of input) (js ''fps'')),
            stream_q = parseFloat (map_get (progress_of input) (js ''stream_0_0_q'')),
            bitrate = parseFloat (map_get (progress_of input) (js ''bitrate'')),
            total_size = parseInt (map_get (progress_of input) (js ''total_size'')),
            out_time_us = parseInt (map_get (progress_of input) (js ''out_time_us'')),
            out_time = trim ot,
            dup_frames = parseInt (map_get (progress_of input) (js ''dup_frames'')),
            drop_frames = parseInt (map_get (progress_of input) (js ''drop_frames'')),
            speed = parseFloat (map_get (progress_of input) (js ''speed'')),
            progress = trim pr \<rparr>"
  by (simp add: parseProgress_def build_report_def trim_of_def)

lemma map_get_absent: "m (Some k) = None \<Longrightarrow> map_get m k = None"
  by (simp add: map_get_def)

text \<open>
  C6. Parsing the well-formed block of eleven lines gives the report with \<open>frame = 10\<close>,
  \<open>fps = 25.0\<close>, \<open>stream_q = 28.0\<close>, \<open>bitrate = 512.3\<close>, \<open>total_size = 10240\<close>,
  \<open>out_time_us = 400000\<close>, \<open>out_time = "00:00:00.40"\<close>, \<open>dup_frames = 0\<close>,
  \<open>drop_frames = 0\<close>, \<open>speed = 1.0\<close> and \<open>progress = "continue"\<close>.
\<close>

theorem parseProgress_well_formed_block:
  "parseProgress (js ''frame=10\<newline>fps=25.0\<newline>stream_0_0_q=28.0\<newline>bitrate=512.3\<newline>total_size=10240\<newline>out_time_us=400000\<newline>out_time=00:00:00.40\<newline>dup_frames=0\<newline>drop_frames=0\<newline>speed=1.0\<newline>progress=continue\<newline>'')
   = Some \<lparr> frame = Num 10, fps = Num 25, stream_q = Num 28, bitrate = Num (5123 / 10),
            total_size = Num 10240, out_time_us = Num 400000, out_time = js ''00:00:00.40'',
            dup_frames = Num 0, drop_frames = Num 0, speed = Num 1,
            progress = js ''continue'' \<rparr>"
  (is "parseProgress ?block = _")
proof -
  have start: "indexOf ?block (js ''frame='') = 0"
    by (simp add: js_def)
  have lines: "split_lines ?block =
     [js ''frame=10'', js ''fps=25.0'', js ''stream_0_0_q=28.0'', js ''bitrate=512.3'',
      js ''total_size=10240'', js ''out_time_us=400000'', js ''out_time=00:00:00.40'',
      js ''dup_frames=0'', js ''drop_frames=0'', js ''speed=1.0'', js ''progress=continue'', []]"
    by (simp add: js_def)
  have g: "map_get (progress_of ?block) (js ''frame'') = Some (js ''10'')"
    "map_get (progress_of ?block) (js ''fps'') = Some (js ''25.0'')"
    "map_get (progress_of ?block) (js ''stream_0_0_q'') = Some (js ''28.0'')"
    "map_get (progress_of ?block) (js ''bitrate'') = Some (js ''512.3'')"
    "map_get (progress_of ?block) (js ''total_size'') = Some (js ''10240'')"
    "map_get (progress_of ?block) (js ''out_time_us'') = Some (js ''400000'')"
    "map_get (progress_of ?block) (js ''out_time'') = Some (js ''00:00:00.40'')"
    "map_get (progress_of ?block) (js ''dup_frames'') = Some (js ''0'')"
    "map_get (progress_of ?block) (js ''drop_frames'') = Some (js ''0'')"
    "map_get (progress_of ?block) (js ''speed'') = Some (js ''1.0'')"
    "map_get (progress_of ?block) (js ''progress'') = Some (js ''continue'')"
    unfolding progress_of_def lines
    by (simp_all add: set_line_def split_limit_def at_index_def map_get_def js_def)
  have n: "parseInt (Some (js ''10'')) = Num 10" "parseFloat (Some (js ''25.0'')) = Num 25"
    "parseFloat (Some (js ''28.0'')) = Num 28" "parseFloat (Some (js ''512.3'')) = Num (5123 / 10)"
    "parseInt (Some (js ''10240'')) = Num 10240" "parseInt (Some (js ''400000'')) = Num 400000"
    "parseInt (Some (js ''0'')) = Num 0" "parseFloat (Some (js ''1.0'')) = Num 1"
    by (simp_all add: number_parsers js_def)
  have t: "trim (js ''00:00:00.40'') = js ''00:00:00.40''" "trim (js ''continue'') = js ''continue''"
    by (simp_all add: trim_def trimStart_def trimEnd_def isWhiteSpace_def js_def)
  show ?thesis
    unfolding parseProgress_Some [OF start g(7) g(11)] g n t by simp
qed

text \<open>
  C1, as amended. A chunk that begins with \<open>frame=\<close> gives no report when the key
  \<open>out_time\<close> or the key \<open>progress\<close> is missing. A missing numeric key or a numeric
  field that does not parse is no failure: as soon as the lookups of \<open>out_time\<close> and
  \<open>progress\<close> give strings the report is returned, each numeric field being what
  \<open>parseInt\<close> or \<open>parseFloat\<close> returns for the stored value, which is NaN for a
  missing key.
\<close>

theorem parseProgress_fails_on_string_keys_only:
  assumes "indexOf input (js ''frame='') = 0"
  shows "(progress_of input (Some (js ''out_time'')) = None
            \<or> progress_of input (Some (js ''progress'')) = None
          \<longrightarrow> parseProgress input = None)
       \<and> (\<forall>ot pr. map_get (progress_of input) (js ''out_time'') = Some ot
             \<and> map_get (progress_of input) (js ''progress'') = Some pr
           \<longrightarrow> parseProgress input =
             Some \<lparr> frame = parseInt (map_get (progress_of input) (js ''frame'')),
                    fps = parseFloat (map_get (progress_of input) (js ''fps'')),
                    stream_q = parseFloat (map_get (progress_of input) (js ''stream_0_0_q'')),
                    bitrate = parseFloat (map_get (progress_of input) (js ''bitrate'')),
                    total_size = parseInt (map_get (progress_of input) (js ''total_size'')),
                    out_time_us = parseInt (map_get (progress_of input) (js ''out_time_us'')),
                    out_time = trim ot,
                    dup_frames = parseInt (map_get (progress_of input) (js ''dup_frames'')),
                    drop_frames = parseInt (map_get (progress_of input) (js ''drop_frames'')),
                    speed = parseFloat (map_get (progress_of input) (js ''speed'')),
                    progress = trim pr \<rparr>)
       \<and> (\<forall>k. progress_of input (Some k) = None
           \<longrightarrow> parseInt (map_get (progress_of input) k) = NaN
             \<and> parseFloat (map_get (progress_of input) k) = NaN)"
proof (intro conjI allI impI)
  assume "progress_of input (Some (js ''out_time'')) = None
            \<or> progress_of input (Some (js ''progress'')) = None"
  then have "map_get (progress_of input) (js ''out_time'') = None
               \<or> map_get (progress_of input) (js ''progress'') = None"
    by (auto simp: map_get_absent)
  then show "parseProgress input = None"
    by (simp add: parseProgress_None_iff [OF assms])
next
  fix ot pr
  assume "map_get (progress_of input) (js ''out_time'') = Some ot
            \<and> map_get (progress_of input) (js ''progress'') = Some pr"
  then show "parseProgress input =
             Some \<lparr> frame = parseInt (map_get (progress_of input) (js ''frame'')),
                    fps = parseFloat (map_get (progress_of input) (js ''fps'')),
                    stream_q = parseFloat (map_get (progress_of input) (js ''stream_0_0_q'')),
                    bitrate = parseFloat (map_get (progress_of input) (js ''bitrate'')),
                    total_size = parseInt (map_get (progress_of input) (js ''total_size'')),
                    out_time_us = parseInt (map_get (progress_of input) (js ''out_time_us'')),
                    out_time = trim ot,
                    dup_frames = parseInt (map_get (progress_of input) (js ''dup_frames'')),
                    drop_frames = parseInt (map_get (progress_of input) (js ''drop_frames'')),
                    speed = parseFloat (map_get (progress_of input) (js ''speed'')),
                    progress = trim pr \<rparr>"
    using parseProgress_Some [OF assms] by blast
next
  fix k
  assume "progress_of input (Some k) = None"
  then show "parseInt (map_get (progress_of input) k) = NaN"
    by (simp add: map_get_absent parse_undefined)
next
  fix k
  assume "progress_of input (Some k) = None"
  then show "parseFloat (map_get (progress_of input) k) = NaN"
    by (simp add: map_get_absent parse_undefined)
qed

theorem parseProgress_fails_on_string_keys_only_witness:
  "indexOf (js ''frame=7\<newline>progress=end'') (js ''frame='') = 0
   \<and> progress_of (js ''frame=7\<newline>progress=end'') (Some (js ''out_time'')) = None
   \<and> parseProgress (js ''frame=7\<newline>progress=end'') = None
   \<and> parseFloat (map_get (progress_of (js ''frame=7\<newline>progress=end'')) (js ''out_time'')) = NaN"
proof -
  have start: "indexOf (js ''frame=7\<newline>progress=end'') (js ''frame='') = 0"
    by (simp add: js_def)
  have absent: "progress_of (js ''frame=7\<newline>progress=end'') (Some (js ''out_time'')) = None"
    by (simp add: line_parsers js_def)
  from parseProgress_fails_on_string_keys_only [OF start] start absent
  show ?thesis by blast
qed

text \<open>The well-formed block without its \<open>speed=\<close> line still gives a report; its
  \<open>speed\<close> is NaN.\<close>

theorem parseProgress_without_speed:
  "parseProgress (js ''frame=10\<newline>fps=25.0\<newline>stream_0_0_q=28.0\<newline>bitrate=512.3\<newline>total_size=10240\<newline>out_time_us=400000\<newline>out_time=00:00:00.40\<newline>dup_frames=0\<newline>drop_frames=0\<newline>progress=continue\<newline>'')
   = Some \<lparr> frame = Num 10, fps = Num 25, stream_q = Num 28, bitrate = Num (5123 / 10),
            total_size = Num 10240, out_time_us = Num 400000, out_time = js ''00:00:00.40'',
            dup_frames = Num 0, drop_frames = Num 0, speed = NaN,
            progress = js ''continue'' \<rparr>"
  (is "parseProgress ?block = _")
proof -
  have start: "indexOf ?block (js ''frame='') = 0"
    by (simp add: js_def)
  have lines: "split_lines ?block =
     [js ''frame=10'', js ''fps=25.0'', js ''stream_0_0_q=28.0'', js ''bitrate=512.3'',
      js ''total_size=10240'', js ''out_time_us=400000'', js ''out_time=00:00:00.40'',
      js ''dup_frames=0'', js ''drop_frames=0'', js ''progress=continue'', []]"
    by (simp add: js_def)
  have g: "map_get (progress_of ?block) (js ''frame'') = Some (js ''10'')"
    "map_get (progress_of ?block) (js ''fps'') = Some (js ''25.0'')"
    "map_get (progress_of ?block) (js ''stream_0_0_q'') = Some (js ''28.0'')"
    "map_get (progress_of ?block) (js ''bitrate'') = Some (js ''512.3'')"
    "map_get (progress_of ?block) (js ''total_size'') = Some (js ''10240'')"
    "map_get (progress_of ?block) (js ''out_time_us'') = Some (js ''400000'')"
    "map_get (progress_of ?block) (js ''out_time'') = Some (js ''00:00:00.40'')"
    "map_get (progress_of ?block) (js ''dup_frames'') = Some (js ''0'')"
    "map_get (progress_of ?block) (js ''drop_frames'') = Some (js ''0'')"
    "map_get (progress_of ?block) (js ''speed'') = None"
    "map_get (progress_of ?block) (js ''progress'') = Some (js ''continue'')"
    unfolding progress_of_def lines
    by (simp_all add: set_line_def split_limit_def at_index_def map_get_def js_def)
  have n: "parseInt (Some (js ''10'')) = Num 10" "parseFloat (Some (js ''25.0'')) = Num 25"
    "parseFloat (Some (js ''28.0'')) = Num 28" "parseFloat (Some (js ''512.3'')) = Num (5123 / 10)"
    "parseInt (Some (js ''10240'')) = Num 10240" "parseInt (Some (js ''400000'')) = Num 400000"
    "parseInt (Some (js ''0'')) = Num 0"
    by (simp_all add: number_parsers js_def)
  have t: "trim (js ''00:00:00.40'') = js ''00:00:00.40''" "trim (js ''continue'') = js ''continue''"
    by (simp_all add: trim_def trimStart_def trimEnd_def isWhiteSpace_def js_def)
  show ?thesis
    unfolding parseProgress_Some [OF start g(7) g(11)] g n t parse_undefined by simp
qed

text \<open>
  C7, as amended. In \<open>parseProgress\<close> every line of a chunk is split at each \<open>=\<close>
  and only the first two pieces are kept: the key is the text before the first \<open>=\<close>,
  the value is the text between the first \<open>=\<close> and the second one (or the end of the
  line when there is no second one), and a line without \<open>=\<close> stores \<open>undefined\<close>.
  When a key occurs on several lines the last line decides.
\<close>

theorem line_split_keeps_two_pieces:
  "at_index (split_limit 61 2 line) 0 = Some (line_key line)
   \<and> at_index (split_limit 61 2 line) 1 = line_value line
   \<and> length (split_limit 61 2 line) \<le> 2
   \<and> set_line m line = m(Some (line_key line) \<mapsto> line_value line)
   \<and> map_get (progress_of input) k =
       (case last_line_with k (split_lines input) of None \<Rightarrow> None | Some l \<Rightarrow> line_value l)"
  using at_index_split [of line] set_line_eq [of m line] map_get_progress_of [of input k]
  by (simp add: split_limit_def)

theorem line_split_keeps_two_pieces_witness:
  "at_index (split_limit 61 2 (js ''out_time=a=b'')) 0 = Some (js ''out_time'')
   \<and> at_index (split_limit 61 2 (js ''out_time=a=b'')) 1 = Some (js ''a'')
   \<and> map_get (progress_of (js ''frame=1\<newline>frame=2'')) (js ''frame'') = Some (js ''2'')"
proof -
  have k: "line_key (js ''out_time=a=b'') = js ''out_time''"
    and v: "line_value (js ''out_time=a=b'') = Some (js ''a'')"
    by (simp_all add: line_key_def line_value_def js_def)
  have l: "last_line_with (js ''frame'') (split_lines (js ''frame=1\<newline>frame=2'')) = Some (js ''frame=2'')"
    by (simp add: last_line_with_def line_key_def js_def)
  have v2: "line_value (js ''frame=2'') = Some (js ''2'')"
    by (simp add: line_value_def js_def)
  from line_split_keeps_two_pieces
    [of "js ''out_time=a=b''" Map.empty "js ''frame=1\<newline>frame=2''" "js ''frame''"]
  show ?thesis
    unfolding k v l by (simp add: v2)
qed

text \<open>A value with a second \<open>=\<close> is cut there: the line \<open>out_time=a=b\<close> stores \<open>a\<close>,
  not \<open>a=b\<close>.\<close>

theorem value_cut_at_second_equals:
  "split_limit 61 2 (js ''out_time=a=b'') = [js ''out_time'', js ''a'']
   \<and> map_get (progress_of (js ''frame=1\<newline>out_time=a=b\<newline>progress=c'')) (js ''out_time'')
       = Some (js ''a'')
   \<and> map_get (progress_of (js ''frame=1\<newline>out_time=a=b\<newline>progress=c'')) (js ''out_time'')
       \<noteq> Some (js ''a=b'')"
  by (simp add: line_parsers js_def)

text \<open>
  C10, as amended. \<open>parseProgress\<close> returns a report or no report for every chunk.
  On a chunk that begins with \<open>frame=\<close> it returns no report exactly when the lookup
  of \<open>out_time\<close> or of \<open>progress\<close> gives \<open>undefined\<close>, that is when the key is absent
  or the last line with that key has no \<open>=\<close>. A chunk that lacks only numeric keys
  still gives a report, with NaN in the fields of the absent keys.
\<close>

theorem parseProgress_no_report_iff:
  "(indexOf input (js ''frame='') \<noteq> 0 \<longrightarrow> parseProgress input = None)
   \<and> (indexOf input (js ''frame='') = 0 \<longrightarrow>
        (parseProgress input = None) =
          (map_get (progress_of input) (js ''out_time'') = None
           \<or> map_get (progress_of input) (js ''progress'') = None))
   \<and> (map_get (progress_of input) k = None) =
        (progress_of input (Some k) = None
         \<or> (\<exists>l. last_line_with k (split_lines input) = Some l \<and> 61 \<notin> set l))
   \<and> (\<forall>r. parseProgress input = Some r \<longrightarrow>
        (progress_of input (Some (js ''fps'')) = None \<longrightarrow> fps r = NaN)
        \<and> (progress_of input (Some (js ''stream_0_0_q'')) = None \<longrightarrow> stream_q r = NaN)
        \<and> (progress_of input (Some (js ''bitrate'')) = None \<longrightarrow> bitrate r = NaN)
        \<and> (progress_of input (Some (js ''total_size'')) = None \<longrightarrow> total_size r = NaN)
        \<and> (progress_of input (Some (js ''out_time_us'')) = None \<longrightarrow> out_time_us r = NaN)
        \<and> (progress_of input (Some (js ''dup_frames'')) = None \<longrightarrow> dup_frames r = NaN)
        \<and> (progress_of input (Some (js ''drop_frames'')) = None \<longrightarrow> drop_frames r = NaN)
        \<and> (progress_of input (Some (js ''speed'')) = None \<longrightarrow> speed r = NaN))"
proof (intro conjI)
  show "indexOf input (js ''frame='') \<noteq> 0 \<longrightarrow> parseProgress input = None"
    by (simp add: parseProgress_def)
  show "indexOf input (js ''frame='') = 0 \<longrightarrow>
        (parseProgress input = None) =
          (map_get (progress_of input) (js ''out_time'') = None
           \<or> map_get (progress_of input) (js ''progress'') = None)"
    by (rule impI) (rule parseProgress_None_iff)
  show "(map_get (progress_of input) k = None) =
        (progress_of input (Some k) = None
         \<or> (\<exists>l. last_line_with k (split_lines input) = Some l \<and> 61 \<notin> set l))"
    by (auto simp: map_get_progress_of key_absent_iff line_value_def split: option.splits if_splits)
  show "\<forall>r. parseProgress input = Some r \<longrightarrow>
        (progress_of input (Some (js ''fps'')) = None \<longrightarrow> fps r = NaN)
        \<and> (progress_of input (Some (js ''stream_0_0_q'')) = None \<longrightarrow> stream_q r = NaN)
        \<and> (progress_of input (Some (js ''bitrate'')) = None \<longrightarrow> bitrate r = NaN)
        \<and> (progress_of input (Some (js ''total_size'')) = None \<longrightarrow> total_size r = NaN)
        \<and> (progress_of input (Some (js ''out_time_us'')) = None \<longrightarrow> out_time_us r = NaN)
        \<and> (progress_of input (Some (js ''dup_frames'')) = None \<longrightarrow> dup_frames r = NaN)
        \<and> (progress_of input (Some (js ''drop_frames'')) = None \<longrightarrow> drop_frames r = NaN)
        \<and> (progress_of input (Some (js ''speed'')) = None \<longrightarrow> speed r = NaN)"
  proof (intro allI impI)
    fix r
    assume r: "parseProgress input = Some r"
    then have start: "indexOf input (js ''frame='') = 0"
      by (simp add: parseProgress_def split: if_splits)
    from r obtain ot pr where "map_get (progress_of input) (js ''out_time'') = Some ot"
      and "map_get (progress_of input) (js ''progress'') = Some pr"
      using parseProgress_None_iff [OF start] by auto
    from parseProgress_Some [OF start this] r
    show "(progress_of input (Some (js ''fps'')) = None \<longrightarrow> fps r = NaN)
        \<and> (progress_of input (Some (js ''stream_0_0_q'')) = None \<longrightarrow> stream_q r = NaN)
        \<and> (progress_of input (Some (js ''bitrate'')) = None \<longrightarrow> bitrate r = NaN)
        \<and> (progress_of input (Some (js ''total_size'')) = None \<longrightarrow> total_size r = NaN)
        \<and> (progress_of input (Some (js ''out_time_us'')) = None \<longrightarrow> out_time_us r = NaN)
        \<and> (progress_of input (Some (js ''dup_frames'')) = None \<longrightarrow> dup_frames r = NaN)
        \<and> (progress_of input (Some (js ''drop_frames'')) = None \<longrightarrow> drop_frames r = NaN)
        \<and> (progress_of input (Some (js ''speed'')) = None \<longrightarrow> speed r = NaN)"
      by (auto simp: map_get_absent parse_undefined)
  qed
qed

theorem parseProgress_no_report_iff_witness:
  "indexOf (js ''frame=7\<newline>out_time=1\<newline>progress=end'') (js ''frame='') = 0
   \<and> parseProgress (js ''frame=7\<newline>out_time=1\<newline>progress=end'') \<noteq> None
   \<and> progress_of (js ''frame=7\<newline>out_time=1\<newline>progress=end'') (Some (js ''speed'')) = None
   \<and> map_option speed (parseProgress (js ''frame=7\<newline>out_time=1\<newline>progress=end'')) = Some NaN"
  (is "indexOf ?x _ = 0 \<and> _")
proof -
  have start: "indexOf ?x (js ''frame='') = 0"
    by (simp add: js_def)
  have g: "map_get (progress_of ?x) (js ''out_time'') \<noteq> None"
    "map_get (progress_of ?x) (js ''progress'') \<noteq> None"
    "progress_of ?x (Some (js ''speed'')) = None"
    by (simp_all add: line_parsers js_def)
  note th = parseProgress_no_report_iff [of ?x "js ''speed''"]
  from th start g(1,2) have some: "parseProgress ?x \<noteq> None"
    by blast
  then obtain r where r: "parseProgress ?x = Some r"
    by auto
  from th r g(3) have "speed r = NaN"
    by blast
  with r some start g(3) show ?thesis
    by simp
qed

text \<open>The line \<open>out_time\<close> without \<open>=\<close> overwrites the value of the key with
  \<open>undefined\<close>: both keys are present and there is no report.\<close>

theorem parseProgress_no_report_with_keys_present:
  "indexOf (js ''frame=1\<newline>out_time=a\<newline>progress=c\<newline>out_time'') (js ''frame='') = 0
   \<and> progress_of (js ''frame=1\<newline>out_time=a\<newline>progress=c\<newline>out_time'')
        (Some (js ''out_time'')) \<noteq> None
   \<and> progress_of (js ''frame=1\<newline>out_time=a\<newline>progress=c\<newline>out_time'')
        (Some (js ''progress'')) \<noteq> None
   \<and> parseProgress (js ''frame=1\<newline>out_time=a\<newline>progress=c\<newline>out_time'') = None"
  (is "indexOf ?x _ = 0 \<and> _")
proof -
  have start: "indexOf ?x (js ''frame='') = 0"
    by (simp add: js_def)
  have g: "progress_of ?x (Some (js ''out_time'')) = Some None"
    "progress_of ?x (Some (js ''progress'')) = Some (Some (js ''c''))"
    by (simp_all add: line_parsers js_def)
  then have "map_get (progress_of ?x) (js ''out_time'') = None"
    by (simp add: map_get_def)
  then have "parseProgress ?x = None"
    by (simp add: parseProgress_None_iff [OF start])
  with start g show ?thesis by simp
qed

section \<open>Properties of the supervisor\<close>

lemmas other_handlers = on_stderr_line_def on_error_def on_exit_def stop_def on_timer_def

lemmas exit_text =
  exit_message_def show_code_def show_signal_def show_int_def show_nat.simps js_def

lemma on_stdout_effects:
  "snd (on_stdout cfg s now data) =
     (if \<not> started s \<and> first_frames data then [first_frames_log cfg (now - startTime s)] else [])"
  by (auto simp: on_stdout_def first_frames_def split: option.splits)

lemma on_stdout_state:
  "timers (fst (on_stdout cfg s now data)) = timers s"
  "killTimeout (fst (on_stdout cfg s now data)) = killTimeout s"
  "killed (fst (on_stdout cfg s now data)) = killed s"
  "next_handle (fst (on_stdout cfg s now data)) = next_handle s"
  "callback (fst (on_stdout cfg s now data)) = callback s"
  "startTime (fst (on_stdout cfg s now data)) = startTime s"
  "started (fst (on_stdout cfg s now data)) = (started s \<or> first_frames data)"
  by (auto simp: on_stdout_def first_frames_def split: option.splits)

lemma step_keeps_start: "startTime (fst (step cfg s e)) = startTime s"
  by (cases e) (auto simp: other_handlers on_stdout_state Let_def split: option.splits)

lemma step_started:
  "started (fst (step cfg s e)) =
     (started s \<or> (case e of StdoutData now data \<Rightarrow> first_frames data | _ \<Rightarrow> False))"
  by (cases e) (auto simp: other_handlers on_stdout_state Let_def split: option.splits)

lemma stdout_trace_started: "started s \<Longrightarrow> stdout_trace cfg s evs = []"
proof (induction evs arbitrary: s)
  case Nil
  then show ?case by simp
next
  case (Cons e evs)
  from Cons.prems have st: "started (fst (step cfg s e))"
    by (simp add: step_started)
  show ?case
  proof (cases e)
    case (StdoutData now data)
    with Cons.prems Cons.IH [OF st] show ?thesis
      by (simp add: on_stdout_effects)
  qed (use Cons.IH [OF st] in simp_all)
qed

lemma stdout_trace_lifetime:
  "\<not> started s \<Longrightarrow> startTime s = t0 \<Longrightarrow>
     stdout_trace cfg s evs =
       (case first_frames_at evs of None \<Rightarrow> []
        | Some now \<Rightarrow> [first_frames_log cfg (now - t0)])"
proof (induction evs arbitrary: s)
  case Nil
  then show ?case by simp
next
  case (Cons e evs)
  have t: "startTime (fst (step cfg s e)) = t0"
    using Cons.prems by (simp add: step_keeps_start)
  show ?case
  proof (cases "case e of StdoutData now data \<Rightarrow> first_frames data | _ \<Rightarrow> False")
    case True
    then obtain now data where e: "e = StdoutData now data" and ff: "first_frames data"
      by (cases e) auto
    have "started (fst (step cfg s e))"
      using True by (simp add: step_started)
    then have "stdout_trace cfg (fst (step cfg s e)) evs = []"
      by (rule stdout_trace_started)
    with e ff Cons.prems show ?thesis
      by (simp add: on_stdout_effects)
  next
    case False
    then have "\<not> started (fst (step cfg s e))"
      using Cons.prems by (simp add: step_started)
    from Cons.IH [OF this t] False show ?thesis
      by (cases e) (simp_all add: on_stdout_effects)
  qed
qed

lemma first_frames_log_level:
  "first_frames_log cfg ms =
     (if (of_int ms :: rat) / 1000 < 5
      then LogDebug (js ''Getting the first frames took '' @ show_seconds ms @ js '' seconds.'')
             (cameraName cfg) (debug cfg)
      else if (of_int ms :: rat) / 1000 < 22
      then LogWarn (js ''Getting the first frames took '' @ show_seconds ms @ js '' seconds.'')
             (cameraName cfg)
      else LogError (js ''Getting the first frames took '' @ show_seconds ms @ js '' seconds.'')
             (cameraName cfg))"
  by (simp add: first_frames_log_def Let_def)

lemma first_frames_log_not_kill: "first_frames_log cfg ms \<noteq> Kill g d"
  by (simp add: first_frames_log_def Let_def)

lemma on_stdout_no_kill: "Kill g d \<notin> set (snd (on_stdout cfg s now data))"
  using first_frames_log_not_kill [of cfg "now - startTime s" g d]
  by (auto simp: on_stdout_effects)

lemma quiet_step:
  "quiet e \<Longrightarrow>
     timers (fst (step cfg s e)) = timers s \<and> killTimeout (fst (step cfg s e)) = killTimeout s
     \<and> killed (fst (step cfg s e)) = killed s \<and> next_handle (fst (step cfg s e)) = next_handle s
     \<and> (\<forall>g d. Kill g d \<notin> set (snd (step cfg s e)))"
  by (cases e) (auto simp: other_handlers on_stdout_state on_stdout_no_kill)

lemma quiet_run:
  "\<forall>e \<in> set evs. quiet e \<Longrightarrow>
     timers (run_state cfg s evs) = timers s \<and> killTimeout (run_state cfg s evs) = killTimeout s
     \<and> killed (run_state cfg s evs) = killed s \<and> next_handle (run_state cfg s evs) = next_handle s
     \<and> (\<forall>g d. Kill g d \<notin> set (run_trace cfg s evs))"
proof (induction evs arbitrary: s)
  case Nil
  then show ?case by simp
next
  case (Cons e evs)
  then have q: "quiet e" and qs: "\<forall>e \<in> set evs. quiet e" by simp_all
  from quiet_step [OF q, of cfg s] Cons.IH [OF qs, of "fst (step cfg s e)"]
  show ?case by simp
qed

lemma unarmed_step:
  "timers s = [] \<Longrightarrow> e \<noteq> Stop \<Longrightarrow>
     timers (fst (step cfg s e)) = [] \<and> (\<forall>g d. Kill g d \<notin> set (snd (step cfg s e)))"
  by (cases e)
    (auto simp: other_handlers on_stdout_state on_stdout_no_kill clearTimeout_def Let_def
          split: option.splits)

lemma unarmed_run:
  "timers s = [] \<Longrightarrow> Stop \<notin> set evs \<Longrightarrow>
     timers (run_state cfg s evs) = [] \<and> (\<forall>g d. Kill g d \<notin> set (run_trace cfg s evs))"
proof (induction evs arbitrary: s)
  case Nil
  then show ?case by simp
next
  case (Cons e evs)
  then have ne: "e \<noteq> Stop" and rest: "Stop \<notin> set evs" by auto
  from unarmed_step [OF Cons.prems(1) ne, of cfg]
  have t: "timers (fst (step cfg s e)) = []"
    and k: "\<forall>g d. Kill g d \<notin> set (snd (step cfg s e))" by simp_all
  from Cons.IH [OF t rest] k show ?case by simp
qed

lemma step_killed:
  "killed (fst (step cfg s e)) =
     (killed s \<or> Kill (js ''SIGKILL'') True \<in> set (snd (step cfg s e)))"
  by (cases e)
    (auto simp: other_handlers on_stdout_state on_stdout_no_kill Let_def split: option.splits)

lemma run_killed:
  "killed (run_state cfg s evs) =
     (killed s \<or> Kill (js ''SIGKILL'') True \<in> set (run_trace cfg s evs))"
proof (induction evs arbitrary: s)
  case Nil
  then show ?case by simp
next
  case (Cons e evs)
  show ?case
    using Cons.IH [of "fst (step cfg s e)"] step_killed [of cfg s e] by auto
qed

lemma callback_kept:
  "\<forall>e \<in> set evs. \<forall>l. e \<noteq> StderrLine l \<Longrightarrow> callback (run_state cfg s evs) = callback s"
proof (induction evs arbitrary: s)
  case Nil
  then show ?case by simp
next
  case (Cons e es)
  have "callback (fst (step cfg s e)) = callback s"
    using Cons.prems
    by (cases e) (auto simp: other_handlers on_stdout_state Let_def split: option.splits)
  with Cons.IH [of "fst (step cfg s e)"] Cons.prems show ?case by simp
qed

lemma severity_tag_iff:
  "severity_tag line =
     (\<exists>pre post. line = pre @ js ''[panic]'' @ post \<or> line = pre @ js ''[fatal]'' @ post
        \<or> line = pre @ js ''[error]'' @ post)"
  unfolding severity_tag_def indexOf_found_iff by blast

text \<open>
  C2. The ready callback should be invoked at most once in the life of a supervisor.
  The handler of a line on standard error clears the variable after the call; the
  handlers of \<open>error\<close> and of \<open>exit\<close> call it and leave it set. When the child exits
  with code 1 before it has started and a line of its standard error is delivered
  after that, the callback is invoked twice: with the exit error, then with no
  argument.
\<close>

theorem ready_callback_invoked_twice:
  "filter is_callback
     (run_trace example_config (fst (construct example_config True 0))
        [ProcessExit (Some 1) None, StderrLine (js ''Conversion failed!'')])
   = [Callback (Some (js ''FFmpeg exited with code: 1 and signal: null'')), Callback None]"
  by (simp add: other_handlers construct_def example_config_def severity_tag_def exit_text)

text \<open>
  C3. An exit with a code other than 0 and 255: when \<open>started\<close> is false and the
  ready callback is pending, the error is logged, \<open>stopStream\<close> is called and the
  callback is invoked with an error carrying the exit message, and \<open>forceStopStream\<close>
  is not called; when \<open>started\<close> is true, the error is logged, \<open>stopStream\<close> and
  \<open>forceStopStream\<close> are called, and the callback is not invoked.
\<close>

theorem exit_with_error_code:
  assumes "c \<noteq> 0" and "c \<noteq> 255"
  shows "(\<not> started s \<and> callback s \<longrightarrow>
            snd (on_exit cfg s (Some c) signal) =
              [LogError (exit_message (Some c) signal @ js '' (Error)'') (cameraName cfg),
               StopStream (sessionId cfg),
               Callback (Some (exit_message (Some c) signal))])
       \<and> (started s \<longrightarrow>
            snd (on_exit cfg s (Some c) signal) =
              [LogError (exit_message (Some c) signal @ js '' (Error)'') (cameraName cfg),
               StopStream (sessionId cfg),
               ForceStopStream (sessionId cfg)])"
  using assms by (simp add: on_exit_def Let_def)

theorem exit_with_error_code_witness:
  "(2::int) \<noteq> 0 \<and> (2::int) \<noteq> 255
   \<and> snd (on_exit example_config (fst (construct example_config True 0)) (Some 2) None) =
       [LogError (js ''FFmpeg exited with code: 2 and signal: null (Error)'') (js ''Camera''),
        StopStream (js ''session-1''),
        Callback (Some (js ''FFmpeg exited with code: 2 and signal: null''))]
   \<and> snd (on_exit example_config ((fst (construct example_config True 0))\<lparr>started := True\<rparr>)
          (Some 2) None) =
       [LogError (js ''FFmpeg exited with code: 2 and signal: null (Error)'') (js ''Camera''),
        StopStream (js ''session-1''),
        ForceStopStream (js ''session-1'')]"
proof -
  have c: "(2::int) \<noteq> 0" "(2::int) \<noteq> 255"
    by simp_all
  have s: "\<not> started (fst (construct example_config True 0))
             \<and> callback (fst (construct example_config True 0))"
    "started ((fst (construct example_config True 0))\<lparr>started := True\<rparr>)"
    by (simp_all add: construct_def)
  have m: "exit_message (Some 2) None = js ''FFmpeg exited with code: 2 and signal: null''"
    by (simp add: exit_text)
  from exit_with_error_code [OF c, of "fst (construct example_config True 0)" example_config None]
    exit_with_error_code [OF c, of "(fst (construct example_config True 0))\<lparr>started := True\<rparr>"
      example_config None] s
  show ?thesis
    unfolding m by (simp add: example_config_def js_def)
qed

text \<open>
  C4. \<open>stop()\<close> writes one quit command, \<open>q\<close> and the line terminator of the platform,
  to the standard input of the child and arms a timer of 2000 milliseconds. Whatever
  the child's streams deliver in between, no kill is sent before the timer fires. When
  the child then exits with code 0, the exit is logged at debug level as (Expected), the
  timer is disarmed, and no kill is sent afterwards as long as \<open>stop()\<close> is not called
  again. When instead the timer fires, \<open>SIGKILL\<close> is sent.
\<close>

theorem stop_then_exit_or_timer:
  assumes "timers s = []" and "\<forall>e \<in> set evs. quiet e"
  shows "snd (stop cfg s) = [StdinWrite (js ''q'' @ EOL cfg)]
       \<and> timers (fst (stop cfg s)) = [(next_handle s, 2000)]
       \<and> (\<forall>g d. Kill g d \<notin> set (run_trace cfg (fst (stop cfg s)) evs))
       \<and> snd (on_exit cfg (run_state cfg (fst (stop cfg s)) evs) (Some 0) signal) =
            [LogDebug (exit_message (Some 0) signal @ js '' (Expected)'')
               (cameraName cfg) (debug cfg)]
       \<and> timers (fst (on_exit cfg (run_state cfg (fst (stop cfg s)) evs) (Some 0) signal)) = []
       \<and> (Stop \<notin> set later \<longrightarrow>
            (\<forall>g d. Kill g d \<notin> set (run_trace cfg
               (fst (on_exit cfg (run_state cfg (fst (stop cfg s)) evs) (Some 0) signal)) later)))
       \<and> snd (on_timer (run_state cfg (fst (stop cfg s)) evs) (next_handle s) delivered) =
            [Kill (js ''SIGKILL'') delivered]"
proof -
  let ?s1 = "fst (stop cfg s)"
  let ?s2 = "run_state cfg ?s1 evs"
  let ?s3 = "fst (on_exit cfg ?s2 (Some 0) signal)"
  have s1: "timers ?s1 = [(next_handle s, 2000)]" "killTimeout ?s1 = Some (next_handle s)"
    using assms(1) by (simp_all add: stop_def)
  from quiet_run [OF assms(2), of cfg ?s1] s1
  have s2: "timers ?s2 = [(next_handle s, 2000)]" "killTimeout ?s2 = Some (next_handle s)"
    and nk: "\<forall>g d. Kill g d \<notin> set (run_trace cfg ?s1 evs)"
    by simp_all
  have s3: "timers ?s3 = []"
    using s2 by (simp add: on_exit_def Let_def clearTimeout_def)
  have ex: "snd (on_exit cfg ?s2 (Some 0) signal) =
      [LogDebug (exit_message (Some 0) signal @ js '' (Expected)'') (cameraName cfg) (debug cfg)]"
    using s2 by (simp add: on_exit_def Let_def)
  have later: "Stop \<notin> set later \<longrightarrow> (\<forall>g d. Kill g d \<notin> set (run_trace cfg ?s3 later))"
    using unarmed_run [OF s3, of later cfg] by blast
  have tm: "snd (on_timer ?s2 (next_handle s) delivered) = [Kill (js ''SIGKILL'') delivered]"
    using s2 by (simp add: on_timer_def)
  have w: "snd (stop cfg s) = [StdinWrite (js ''q'' @ EOL cfg)]"
    by (simp add: stop_def)
  from w s1(1) nk ex s3 later tm show ?thesis
    by (intro conjI)
qed

theorem stop_then_exit_or_timer_witness:
  "timers (fst (construct example_config True 0)) = []
   \<and> snd (stop example_config (fst (construct example_config True 0))) = [StdinWrite [113, 10]]
   \<and> timers (fst (stop example_config (fst (construct example_config True 0)))) = [(0, 2000)]
   \<and> snd (on_exit example_config
            (run_state example_config (fst (stop example_config (fst (construct example_config True 0))))
               [StderrLine (js ''frame=  100'')])
            (Some 0) None) =
       [LogDebug (js ''FFmpeg exited with code: 0 and signal: null (Expected)'') (js ''Camera'') True]
   \<and> (\<forall>g d. Kill g d \<notin> set (run_trace example_config
         (fst (on_exit example_config
            (run_state example_config (fst (stop example_config (fst (construct example_config True 0))))
               [StderrLine (js ''frame=  100'')])
            (Some 0) None))
         [TimerFires 0 True, StderrLine (js ''bye'')]))
   \<and> snd (on_timer
            (run_state example_config (fst (stop example_config (fst (construct example_config True 0))))
               [StderrLine (js ''frame=  100'')]) 0 True) =
       [Kill (js ''SIGKILL'') True]"
proof -
  let ?s = "fst (construct example_config True 0)"
  have t: "timers ?s = []" and h: "next_handle ?s = 0"
    by (simp_all add: construct_def)
  have q: "\<forall>e \<in> set [StderrLine (js ''frame=  100'')]. quiet e"
    by simp
  have l: "Stop \<notin> set [TimerFires 0 True, StderrLine (js ''bye'')]"
    by simp
  have m: "exit_message (Some 0) None = js ''FFmpeg exited with code: 0 and signal: null''"
    by (simp add: exit_text)
  have c: "cameraName example_config = js ''Camera''" "debug example_config = True"
    "js ''q'' @ EOL example_config = [113, 10]"
    by (simp_all add: example_config_def js_def)
  from stop_then_exit_or_timer
    [OF t q, of example_config None "[TimerFires 0 True, StderrLine (js ''bye'')]" True] l t
  show ?thesis
    unfolding h m c by (simp add: js_def)
qed

text \<open>
  C5. The handler of standard output logs the startup latency on a chunk that parses
  to a report with \<open>frame > 0\<close> while \<open>started\<close> is false, and sets \<open>started\<close>; on any
  other chunk, or once \<open>started\<close> is true, it does nothing. For the latency \<open>t\<close> in
  seconds the log is at debug level when \<open>t < 5\<close>, a warning when \<open>5 \<le> t < 22\<close> and an
  error when \<open>t \<ge> 22\<close>, with the message "Getting the first frames took t seconds.".
  Along any run of a supervisor the handler logs once, at the first report with
  \<open>frame > 0\<close>, and never again.
\<close>

theorem startup_latency_logged_once:
  "(\<not> started s \<and> first_frames data \<longrightarrow>
      on_stdout cfg s now data =
        (s\<lparr>started := True\<rparr>, [first_frames_log cfg (now - startTime s)]))
   \<and> (started s \<or> \<not> first_frames data \<longrightarrow> on_stdout cfg s now data = (s, []))
   \<and> ((of_int ms :: rat) / 1000 < 5 \<longrightarrow>
        first_frames_log cfg ms =
          LogDebug (js ''Getting the first frames took '' @ show_seconds ms @ js '' seconds.'')
            (cameraName cfg) (debug cfg))
   \<and> (5 \<le> (of_int ms :: rat) / 1000 \<and> (of_int ms :: rat) / 1000 < 22 \<longrightarrow>
        first_frames_log cfg ms =
          LogWarn (js ''Getting the first frames took '' @ show_seconds ms @ js '' seconds.'')
            (cameraName cfg))
   \<and> (22 \<le> (of_int ms :: rat) / 1000 \<longrightarrow>
        first_frames_log cfg ms =
          LogError (js ''Getting the first frames took '' @ show_seconds ms @ js '' seconds.'')
            (cameraName cfg))
   \<and> stdout_trace cfg (fst (construct cfg cb t0)) evs =
       (case first_frames_at evs of None \<Rightarrow> []
        | Some now \<Rightarrow> [first_frames_log cfg (now - t0)])"
proof (intro conjI)
  show "\<not> started s \<and> first_frames data \<longrightarrow>
      on_stdout cfg s now data =
        (s\<lparr>started := True\<rparr>, [first_frames_log cfg (now - startTime s)])"
    by (auto simp: on_stdout_def first_frames_def split: option.splits)
  show "started s \<or> \<not> first_frames data \<longrightarrow> on_stdout cfg s now data = (s, [])"
    by (auto simp: on_stdout_def first_frames_def split: option.splits)
  show "stdout_trace cfg (fst (construct cfg cb t0)) evs =
       (case first_frames_at evs of None \<Rightarrow> []
        | Some now \<Rightarrow> [first_frames_log cfg (now - t0)])"
    by (rule stdout_trace_lifetime) (simp_all add: construct_def)
qed (simp_all add: first_frames_log_level)

theorem startup_latency_logged_once_witness:
  "stdout_trace example_config (fst (construct example_config True 1000))
     [StdoutData 1500 (js ''frame=0\<newline>out_time=a\<newline>progress=continue''),
      StdoutData 7250 (js ''frame=5\<newline>out_time=b\<newline>progress=continue''),
      StdoutData 30000 (js ''frame=9\<newline>out_time=c\<newline>progress=continue'')]
   = [LogWarn (js ''Getting the first frames took 6.25 seconds.'') (js ''Camera'')]"
proof -
  have p: "map_option frame (parseProgress (js ''frame=0\<newline>out_time=a\<newline>progress=continue'')) = Some (Num 0)"
    "map_option frame (parseProgress (js ''frame=5\<newline>out_time=b\<newline>progress=continue'')) = Some (Num 5)"
    by (simp_all add: parseProgress_def build_report_def trim_of_def line_parsers parseInt_def
          ToString_def trimStart_def isWhiteSpace_def digit_value_def radix_value_def
          signed_number_def js_def)
  have f: "\<not> first_frames (js ''frame=0\<newline>out_time=a\<newline>progress=continue'')"
    "first_frames (js ''frame=5\<newline>out_time=b\<newline>progress=continue'')"
    using p by (auto simp: first_frames_def split: option.splits)
  have a: "first_frames_at
     [StdoutData 1500 (js ''frame=0\<newline>out_time=a\<newline>progress=continue''),
      StdoutData 7250 (js ''frame=5\<newline>out_time=b\<newline>progress=continue''),
      StdoutData 30000 (js ''frame=9\<newline>out_time=c\<newline>progress=continue'')] = Some 7250"
    using f by simp
  have r: "5 \<le> (of_int 6250 :: rat) / 1000 \<and> (of_int 6250 :: rat) / 1000 < 22"
    by simp
  have m: "js ''Getting the first frames took '' @ show_seconds 6250 @ js '' seconds.''
             = js ''Getting the first frames took 6.25 seconds.''"
    by (simp add: show_seconds_def show_nat.simps js_def)
  have c: "cameraName example_config = js ''Camera''"
    by (simp add: example_config_def)
  note th = startup_latency_logged_once [of _ _ example_config _ 6250 True 1000
     "[StdoutData 1500 (js ''frame=0\<newline>out_time=a\<newline>progress=continue''),
       StdoutData 7250 (js ''frame=5\<newline>out_time=b\<newline>progress=continue''),
       StdoutData 30000 (js ''frame=9\<newline>out_time=c\<newline>progress=continue'')]"]
  from th r have "first_frames_log example_config 6250 =
      LogWarn (js ''Getting the first frames took 6.25 seconds.'') (js ''Camera'')"
    unfolding m c by blast
  moreover from th have "stdout_trace example_config (fst (construct example_config True 1000))
     [StdoutData 1500 (js ''frame=0\<newline>out_time=a\<newline>progress=continue''),
      StdoutData 7250 (js ''frame=5\<newline>out_time=b\<newline>progress=continue''),
      StdoutData 30000 (js ''frame=9\<newline>out_time=c\<newline>progress=continue'')]
    = [first_frames_log example_config (7250 - 1000)]"
    unfolding a by simp
  ultimately show ?thesis by simp
qed

text \<open>
  C8, as amended. An exit whose code is absent or 255 is logged at debug level as
  (Forced) when \<open>process.killed\<close> is set, that is when a \<open>SIGKILL\<close> sent by the
  forced-kill timer of this supervisor has been delivered, and at error level as
  (Unexpected) otherwise, also when only the graceful quit of \<open>stop()\<close> has been
  written. In both cases nothing else is called: no method of the delegate and no
  callback.
\<close>

theorem exit_killed_classification:
  assumes "code = None \<or> code = Some 255"
  shows "snd (on_exit cfg (run_state cfg (fst (construct cfg cb t0)) evs) code signal) =
           [if Kill (js ''SIGKILL'') True \<in> set (run_trace cfg (fst (construct cfg cb t0)) evs)
            then LogDebug (exit_message code signal @ js '' (Forced)'') (cameraName cfg) (debug cfg)
            else LogError (exit_message code signal @ js '' (Unexpected)'') (cameraName cfg)]"
proof -
  have "killed (run_state cfg (fst (construct cfg cb t0)) evs) =
          (Kill (js ''SIGKILL'') True \<in> set (run_trace cfg (fst (construct cfg cb t0)) evs))"
    by (simp add: run_killed construct_def)
  with assms show ?thesis
    by (auto simp: on_exit_def Let_def)
qed

theorem exit_killed_classification_witness:
  "snd (on_exit example_config
          (run_state example_config (fst (construct example_config True 0))
             [Stop, TimerFires 0 True])
          None (Some (js ''SIGKILL''))) =
     [LogDebug (js ''FFmpeg exited with code: null and signal: SIGKILL (Forced)'')
        (js ''Camera'') True]"
proof -
  have k: "Kill (js ''SIGKILL'') True
             \<in> set (run_trace example_config (fst (construct example_config True 0))
                      [Stop, TimerFires 0 True])"
    by (simp add: other_handlers construct_def)
  have m: "exit_message None (Some (js ''SIGKILL'')) @ js '' (Forced)''
             = js ''FFmpeg exited with code: null and signal: SIGKILL (Forced)''"
    by (simp add: exit_text)
  have c: "cameraName example_config = js ''Camera''" "debug example_config = True"
    by (simp_all add: example_config_def)
  have "(None :: int option) = None \<or> (None :: int option) = Some 255"
    by simp
  from exit_killed_classification [OF this, of example_config True 0
     "[Stop, TimerFires 0 True]" "Some (js ''SIGKILL'')"] k
  show ?thesis
    unfolding m c by simp
qed

text \<open>After \<open>stop()\<close> has written the graceful quit, an exit with code 255 before the
  timer fires is logged at error level as (Unexpected).\<close>

theorem graceful_stop_exit_255_unexpected:
  "run_trace example_config (fst (construct example_config True 0))
     [Stop, ProcessExit (Some 255) None]
   = [StdinWrite [113, 10],
      LogError (js ''FFmpeg exited with code: 255 and signal: null (Unexpected)'') (js ''Camera'')]"
  by (simp add: other_handlers construct_def example_config_def clearTimeout_def exit_text)

text \<open>
  C9. A line on standard error that carries the tag \<open>[panic]\<close>, \<open>[fatal]\<close> or
  \<open>[error]\<close> is logged at error level when debug mode is on; with debug mode off a
  line is not logged at all. In both modes a pending ready callback is invoked, with
  no argument and before any log, and is no longer pending afterwards; for a
  supervisor constructed with a callback this happens at the first line.
\<close>

theorem stderr_line_handling:
  "(debug cfg \<and> severity_tag line \<longrightarrow>
      snd (on_stderr_line cfg s line) =
        (if callback s then [Callback None] else []) @ [LogError line (cameraName cfg)])
   \<and> (\<not> debug cfg \<longrightarrow>
      snd (on_stderr_line cfg s line) = (if callback s then [Callback None] else []))
   \<and> \<not> callback (fst (on_stderr_line cfg s line))
   \<and> ((\<forall>e \<in> set before. \<forall>l. e \<noteq> StderrLine l) \<longrightarrow>
        take 1 (snd (on_stderr_line cfg (run_state cfg (fst (construct cfg True t0)) before) line))
          = [Callback None])
   \<and> severity_tag line =
       (\<exists>pre post. line = pre @ js ''[panic]'' @ post \<or> line = pre @ js ''[fatal]'' @ post
          \<or> line = pre @ js ''[error]'' @ post)"
proof (intro conjI)
  show "(\<forall>e \<in> set before. \<forall>l. e \<noteq> StderrLine l) \<longrightarrow>
        take 1 (snd (on_stderr_line cfg (run_state cfg (fst (construct cfg True t0)) before) line))
          = [Callback None]"
  proof
    assume "\<forall>e \<in> set before. \<forall>l. e \<noteq> StderrLine l"
    from callback_kept [OF this, of cfg "fst (construct cfg True t0)"]
    have "callback (run_state cfg (fst (construct cfg True t0)) before)"
      by (simp add: construct_def)
    then show "take 1 (snd (on_stderr_line cfg
        (run_state cfg (fst (construct cfg True t0)) before) line)) = [Callback None]"
      by (simp add: on_stderr_line_def)
  qed
  show "severity_tag line =
       (\<exists>pre post. line = pre @ js ''[panic]'' @ post \<or> line = pre @ js ''[fatal]'' @ post
          \<or> line = pre @ js ''[error]'' @ post)"
    by (rule severity_tag_iff)
qed (simp_all add: on_stderr_line_def)

theorem stderr_line_handling_witness:
  "snd (on_stderr_line example_config (fst (construct example_config True 0))
          (js ''[error] no such file'')) =
     [Callback None, LogError (js ''[error] no such file'') (js ''Camera'')]
   \<and> snd (on_stderr_line (example_config\<lparr>debug := False\<rparr>) (fst (construct example_config True 0))
          (js ''[error] no such file'')) =
     [Callback None]
   \<and> \<not> callback (fst (on_stderr_line example_config (fst (construct example_config True 0))
          (js ''[error] no such file'')))"
proof -
  have "js ''[error] no such file'' = [] @ js ''[error]'' @ js '' no such file''"
    by (simp add: js_def)
  then have "\<exists>pre post. js ''[error] no such file'' = pre @ js ''[panic]'' @ post
      \<or> js ''[error] no such file'' = pre @ js ''[fatal]'' @ post
      \<or> js ''[error] no such file'' = pre @ js ''[error]'' @ post"
    by blast
  with stderr_line_handling [of example_config "js ''[error] no such file''"]
  have tag: "severity_tag (js ''[error] no such file'')"
    by blast
  have c: "debug example_config" "\<not> debug (example_config\<lparr>debug := False\<rparr>)"
    "cameraName example_config = js ''Camera''"
    "callback (fst (construct example_config True 0))"
    by (simp_all add: example_config_def construct_def)
  from stderr_line_handling [of example_config "js ''[error] no such file''"
      "fst (construct example_config True 0)" "[]" 0]
    stderr_line_handling [of "example_config\<lparr>debug := False\<rparr>" "js ''[error] no such file''"
      "fst (construct example_config True 0)" "[]" 0]
    tag c
  show ?thesis
    by simp
qed

end
